theory Spec2Isabelle
  imports Main "HOL-Library.Sublist" "HOL-Library.AList"
begin

section \<open>JavaScript values\<close>

text \<open>
  The controller handles two kinds of untyped data: the payload that \<open>JSON.parse\<close> returns
  for the generator's answer, and the snapshot that \<open>JSON.parse\<close> returns for the stored
  session. Both are JSON trees. A number is a finite one, modelled by an integer, or one of
  the two infinities: every number the controller itself computes is an integer (0, an
  index plus one, the ordinal of an option button), and \<open>JSON.parse\<close> returns \<open>Infinity\<close> or
  \<open>-Infinity\<close> for a literal beyond the range of a double, such as \<open>1e400\<close>. It never returns
  NaN, and \<open>===\<close> on these numbers is plain equality.
\<close>

datatype number = Num int | Infinity | NegInfinity

datatype json =
    JNull
  | JBool bool
  | JNum number
  | JStr string
  | JArr "json list"
  | JObj "(string \<times> json) list"

text \<open>Truthiness of a value, as \<open>||\<close> and \<open>if\<close> test it.\<close>

fun truthy :: "json \<Rightarrow> bool" where
  "truthy JNull = False"
| "truthy (JBool b) = b"
| "truthy (JNum n) = (n \<noteq> Num 0)"
| "truthy (JStr s) = (s \<noteq> [])"
| "truthy (JArr xs) = True"
| "truthy (JObj kvs) = True"

text \<open>
  What a \<open>throw\<close> carries as far as the controller looks at it: the value of
  \<open>error?.message\<close>, \<open>None\<close> when the thrown value is null or undefined or has no message.
\<close>

datatype thrown = Thrown "string option"

fun message :: "thrown \<Rightarrow> string option" where
  "message (Thrown m) = m"

text \<open>
  Reading one of the properties \<open>question\<close>, \<open>options\<close>, \<open>answerIndex\<close> of a payload item
  \<open>p\<close>: on \<open>null\<close> the read throws a TypeError, on an object it gives the own property or
  undefined (\<open>None\<close>), and on a boolean, number, string or array none of these three names
  is defined.
\<close>

definition null_read_message :: "string \<Rightarrow> string" where
  "null_read_message k = ''Cannot read properties of null (reading '' @ [CHR 0x27] @ k @ [CHR 0x27] @ '')''"

fun get_prop :: "json \<Rightarrow> string \<Rightarrow> thrown + json option" where
  "get_prop JNull k = Inl (Thrown (Some (null_read_message k)))"
| "get_prop (JObj kvs) k = Inr (map_of kvs k)"
| "get_prop (JBool b) k = Inr None"
| "get_prop (JNum n) k = Inr None"
| "get_prop (JStr s) k = Inr None"
| "get_prop (JArr xs) k = Inr None"

text \<open>\<open>xs[i]\<close>: undefined (\<open>None\<close>) outside the array.\<close>

definition at_index :: "'a list \<Rightarrow> int \<Rightarrow> 'a option" where
  "at_index xs i = (if 0 \<le> i \<and> i < int (length xs) then Some (xs ! nat i) else None)"

text \<open>Decimal text of a natural number, as a template literal prints it.\<close>

definition digit_char :: "nat \<Rightarrow> char" where
  "digit_char d = char_of (48 + d)"

function show_nat :: "nat \<Rightarrow> string" where
  "show_nat n = (if n < 10 then [digit_char n] else show_nat (n div 10) @ [digit_char (n mod 10)])"
  by pat_completeness auto
termination
  by (relation "measure (\<lambda>n. n)") auto

declare show_nat.simps [simp del]

section \<open>types.ts\<close>

text \<open>
  The field types of \<open>MathProblem\<close> are erased at run time: \<open>question\<close> and the elements of
  \<open>options\<close> hold whatever the payload held, and \<open>answerIndex\<close> holds a number when the
  problem is built and whatever the stored snapshot holds after a reload. So they are JSON
  values here. The field \<open>id\<close> is named \<open>problem_id\<close>.
\<close>

record MathProblem =
  problem_id :: string
  question :: json
  options :: "json list"
  answerIndex :: json

datatype AppStatus = IDLE | LOADING | PLAYING | FEEDBACK | RETRY_SUMMARY | FINISHED

record GameState =
  problems :: "MathProblem list"
  currentIndex :: int
  wrongProblemIds :: "string list"
  status :: AppStatus
  isCorrect :: "bool option"

section \<open>services/sound: SoundService\<close>

text \<open>
  The part of \<open>window\<close> the service reads: whether each of the two constructors exists,
  and the state a freshly constructed context starts in.
\<close>

datatype ctx_state = suspended | running | closed

record window =
  has_AudioContext :: bool
  has_webkitAudioContext :: bool
  new_ctx_state :: ctx_state

text \<open>
  A cue is the oscillator and gain schedule that one play call builds and starts; the two
  calls differ only in that schedule, which is kept by name.
\<close>

datatype cue = SuccessCue | FailureCue

record AudioContext =
  state :: ctx_state
  started :: "cue list"

record SoundService =
  ctx :: "AudioContext option"

text \<open>
  \<open>init\<close>: when \<open>this.ctx\<close> is null, \<open>new (window.AudioContext || webkitAudioContext)()\<close>;
  with neither constructor the operand of \<open>new\<close> is undefined and the expression throws a
  TypeError. Then a suspended context is resumed.
\<close>

definition not_a_constructor_message :: string where
  "not_a_constructor_message = ''(intermediate value) is not a constructor''"

definition resume :: "AudioContext \<Rightarrow> AudioContext" where
  "resume c = (if state c = suspended then c\<lparr>state := running\<rparr> else c)"

definition init :: "window \<Rightarrow> SoundService \<Rightarrow> thrown + SoundService" where
  "init win s =
     (case ctx s of
        None \<Rightarrow>
          (if has_AudioContext win \<or> has_webkitAudioContext win
           then Inr (s\<lparr>ctx := Some (resume \<lparr>state = new_ctx_state win, started = []\<rparr>)\<rparr>)
           else Inl (Thrown (Some not_a_constructor_message)))
      | Some c \<Rightarrow> Inr (s\<lparr>ctx := Some (resume c)\<rparr>))"

definition play :: "cue \<Rightarrow> window \<Rightarrow> SoundService \<Rightarrow> thrown + SoundService" where
  "play q win s =
     (case init win s of
        Inl e \<Rightarrow> Inl e
      | Inr s' \<Rightarrow>
          (case ctx s' of
             None \<Rightarrow> Inr s'
           | Some c \<Rightarrow> Inr (s'\<lparr>ctx := Some (c\<lparr>started := started c @ [q]\<rparr>)\<rparr>)))"

definition playSuccess :: "window \<Rightarrow> SoundService \<Rightarrow> thrown + SoundService" where
  "playSuccess = play SuccessCue"

definition playFailure :: "window \<Rightarrow> SoundService \<Rightarrow> thrown + SoundService" where
  "playFailure = play FailureCue"

section \<open>App.tsx: the controller\<close>

text \<open>
  Everything the component owns or reaches: the game state, the two key flags, the loading
  message, the alerts shown so far, the sound service and its window, the number of pending
  1.2 s timers and of generation calls in flight, and how often the scratch pad was told to
  clear.
\<close>

datatype notice = KeyNotFoundNotice | GenerationFailedNotice

datatype loading_msg = PreparingQuest | ReadingProblems

record World =
  game :: GameState
  hasCheckedKey :: bool
  needsKeySelection :: bool
  loadingMsg :: loading_msg
  alerts :: "notice list"
  win :: window
  sound :: SoundService
  timers :: nat
  uploads :: nat
  canvas_clears :: nat

definition empty_game :: GameState where
  "empty_game = \<lparr>problems = [], currentIndex = 0, wrongProblemIds = [], status = IDLE, isCorrect = None\<rparr>"

subsection \<open>handleAnswer\<close>

text \<open>
  The handler reads \<open>gameState\<close> of the render it was created in, and its updater reads
  \<open>prev\<close>; a click is handled after the render of the previous update, so both are the
  current game state. Reading \<open>answerIndex\<close> of an undefined current problem throws, and so
  does a play call that throws: in both cases the handler ends before \<open>setGameState\<close> and
  \<open>setTimeout\<close>.
\<close>

definition undefined_read_message :: string where
  "undefined_read_message = ''Cannot read properties of undefined (reading answerIndex)''"

definition handleAnswer :: "World \<Rightarrow> int \<Rightarrow> thrown + World" where
  "handleAnswer w choiceIndex =
     (case at_index (problems (game w)) (currentIndex (game w)) of
        None \<Rightarrow> Inl (Thrown (Some undefined_read_message))
      | Some currentProblem \<Rightarrow>
          (let correct = (JNum (Num choiceIndex) = answerIndex currentProblem) in
           case (if correct then playSuccess (win w) (sound w) else playFailure (win w) (sound w)) of
             Inl e \<Rightarrow> Inl e
           | Inr snd' \<Rightarrow>
               Inr (w\<lparr>game := (game w)\<lparr>status := FEEDBACK,
                                        isCorrect := Some correct,
                                        wrongProblemIds :=
                                          (if correct then wrongProblemIds (game w)
                                           else wrongProblemIds (game w) @ [problem_id currentProblem])\<rparr>,
                      sound := snd',
                      timers := Suc (timers w)\<rparr>)))"

text \<open>The updater that the timer applies to the state current when it fires.\<close>

definition advance :: "GameState \<Rightarrow> GameState" where
  "advance prev =
     (let nextIndex = currentIndex prev + 1;
          isEndOfRound = (nextIndex \<ge> int (length (problems prev)))
      in prev\<lparr>status := (if isEndOfRound then RETRY_SUMMARY else PLAYING),
              currentIndex := nextIndex,
              isCorrect := None\<rparr>)"

definition timer_fires :: "World \<Rightarrow> World" where
  "timer_fires w =
     (if timers w = 0 then w
      else w\<lparr>game := advance (game w), canvas_clears := Suc (canvas_clears w), timers := timers w - 1\<rparr>)"

subsection \<open>startRetryRound and resetGame\<close>

definition nextProblems :: "GameState \<Rightarrow> MathProblem list" where
  "nextProblems g = filter (\<lambda>p. problem_id p \<in> set (wrongProblemIds g)) (problems g)"

definition startRetryRound :: "World \<Rightarrow> World" where
  "startRetryRound w =
     (if length (nextProblems (game w)) = 0
      then w\<lparr>game := (game w)\<lparr>status := FINISHED\<rparr>\<rparr>
      else w\<lparr>game := \<lparr>problems = nextProblems (game w), currentIndex = 0, wrongProblemIds = [],
                       status = PLAYING, isCorrect = None\<rparr>,
              canvas_clears := Suc (canvas_clears w)\<rparr>)"

definition resetGame :: "World \<Rightarrow> World" where
  "resetGame w = w\<lparr>game := empty_game\<rparr>"

subsection \<open>handleFileUpload\<close>

text \<open>
  What the awaited part of the \<open>try\<close> block can end in: a throw before the response text is
  read (the generation call rejects), a response whose \<open>text\<close> is falsy, a text that
  \<open>JSON.parse\<close> rejects, or the value \<open>JSON.parse\<close> returns.
\<close>

datatype gen_outcome =
    Rejected thrown
  | NoText
  | ParseFails thrown
  | Payload json

text \<open>The default question text, as its UTF-8 bytes, and the placeholder options.\<close>

definition default_question :: string where
  "default_question =
     [CHR 0xE3, CHR 0x82, CHR 0x82, CHR 0xE3, CHR 0x82, CHR 0x93, CHR 0xE3, CHR 0x81, CHR 0xA0,
      CHR 0xE3, CHR 0x81, CHR 0x84, CHR 0xE3, CHR 0x82, CHR 0x92, CHR 0xE5, CHR 0x8F, CHR 0x96,
      CHR 0xE5, CHR 0xBE, CHR 0x97, CHR 0xE3, CHR 0x81, CHR 0xA7, CHR 0xE3, CHR 0x81, CHR 0x8D,
      CHR 0xE3, CHR 0x81, CHR 0xBE, CHR 0xE3, CHR 0x81, CHR 0x9B, CHR 0xE3, CHR 0x82, CHR 0x93,
      CHR 0xE3, CHR 0x81, CHR 0xA7, CHR 0xE3, CHR 0x81, CHR 0x97, CHR 0xE3, CHR 0x81, CHR 0x9F]"

definition placeholder_options :: "json list" where
  "placeholder_options = [JStr ''?'', JStr ''?'', JStr ''?'']"

text \<open>
  The object literal built for payload item \<open>p\<close> at position \<open>i\<close>, with \<open>now\<close> the value of
  \<open>Date.now()\<close> read for it. The three reads happen in the order of the literal; on
  \<open>null\<close> the first one throws.
\<close>

definition coerce :: "nat \<Rightarrow> nat \<Rightarrow> json \<Rightarrow> thrown + MathProblem" where
  "coerce now i p =
     (case get_prop p ''question'' of
        Inl e \<Rightarrow> Inl e
      | Inr q \<Rightarrow>
     (case get_prop p ''options'' of
        Inl e \<Rightarrow> Inl e
      | Inr os \<Rightarrow>
     (case get_prop p ''answerIndex'' of
        Inl e \<Rightarrow> Inl e
      | Inr a \<Rightarrow>
          Inr \<lparr>problem_id = ''prob-'' @ show_nat now @ ''-'' @ show_nat i,
               question = (case q of
                             Some v \<Rightarrow> if truthy v then v else JStr default_question
                           | None \<Rightarrow> JStr default_question),
               options = (case os of
                            Some (JArr xs) \<Rightarrow> xs
                          | _ \<Rightarrow> placeholder_options),
               answerIndex = (case a of
                                Some (JNum n) \<Rightarrow> JNum n
                              | _ \<Rightarrow> JNum (Num 0))\<rparr>)))"

text \<open>\<open>.map\<close> over the payload, \<open>clock i\<close> being \<open>Date.now()\<close> when item \<open>i\<close> is built.\<close>

fun coerce_all :: "(nat \<Rightarrow> nat) \<Rightarrow> nat \<Rightarrow> json list \<Rightarrow> thrown + MathProblem list" where
  "coerce_all clock i [] = Inr []"
| "coerce_all clock i (p # ps) =
     (case coerce (clock i) i p of
        Inl e \<Rightarrow> Inl e
      | Inr q \<Rightarrow>
          (case coerce_all clock (Suc i) ps of
             Inl e \<Rightarrow> Inl e
           | Inr qs \<Rightarrow> Inr (q # qs)))"

text \<open>The \<open>try\<close> block up to \<open>generatedProblems\<close>: the problems, or what was thrown.\<close>

definition generate :: "(nat \<Rightarrow> nat) \<Rightarrow> gen_outcome \<Rightarrow> thrown + MathProblem list" where
  "generate clock out =
     (case out of
        Rejected e \<Rightarrow> Inl e
      | NoText \<Rightarrow> Inl (Thrown (Some ''Empty response''))
      | ParseFails e \<Rightarrow> Inl e
      | Payload parsedData \<Rightarrow>
          coerce_all clock 0 (case parsedData of JArr xs \<Rightarrow> xs | _ \<Rightarrow> []))"

definition key_not_found_phrase :: string where
  "key_not_found_phrase = ''Requested entity was not found''"

text \<open>The first update of the handler, before the call is awaited.\<close>

definition upload_begins :: "World \<Rightarrow> World" where
  "upload_begins w =
     w\<lparr>game := (game w)\<lparr>status := LOADING\<rparr>, loadingMsg := ReadingProblems, uploads := Suc (uploads w)\<rparr>"

text \<open>The rest of the handler, run when the awaited call settles: the end of \<open>try\<close>, or \<open>catch\<close>.\<close>

definition upload_settles :: "(nat \<Rightarrow> nat) \<Rightarrow> gen_outcome \<Rightarrow> World \<Rightarrow> World" where
  "upload_settles clock out w =
     (case generate clock out of
        Inr generatedProblems \<Rightarrow>
          w\<lparr>game := \<lparr>problems = generatedProblems, currentIndex = 0, wrongProblemIds = [],
                     status = PLAYING, isCorrect = None\<rparr>,
            uploads := uploads w - 1\<rparr>
      | Inl error \<Rightarrow>
          (let errorMessage = (case message error of Some m \<Rightarrow> m | None \<Rightarrow> []);
               keyNotFound = sublist key_not_found_phrase errorMessage
           in w\<lparr>needsKeySelection := (if keyNotFound then True else needsKeySelection w),
                alerts := alerts w @ [if keyNotFound then KeyNotFoundNotice else GenerationFailedNotice],
                game := (game w)\<lparr>status := IDLE\<rparr>,
                uploads := uploads w - 1\<rparr>))"

text \<open>The whole handler when nothing else happens while the call is awaited.\<close>

definition handleFileUpload :: "World \<Rightarrow> bool \<Rightarrow> (nat \<Rightarrow> nat) \<Rightarrow> gen_outcome \<Rightarrow> World" where
  "handleFileUpload w file clock out =
     (if \<not> file then w else upload_settles clock out (upload_begins w))"

subsection \<open>The stored snapshot\<close>

text \<open>
  The effect stores \<open>JSON.stringify(gameState)\<close> after every render and the initialiser
  reads it back with \<open>JSON.parse\<close>. The slot is modelled by the JSON tree its text denotes,
  that is, by what \<open>JSON.parse\<close> returns for it. \<open>JSON.stringify\<close> writes \<open>null\<close> for a number
  that is not finite, in an array as in an object; \<open>stored v\<close> is the tree that the text written
  for \<open>v\<close> denotes.
\<close>

fun stored :: "json \<Rightarrow> json" where
  "stored JNull = JNull"
| "stored (JBool b) = JBool b"
| "stored (JNum (Num i)) = JNum (Num i)"
| "stored (JNum Infinity) = JNull"
| "stored (JNum NegInfinity) = JNull"
| "stored (JStr s) = JStr s"
| "stored (JArr xs) = JArr (map stored xs)"
| "stored (JObj kvs) = JObj (map (\<lambda>(k, v). (k, stored v)) kvs)"

text \<open>A value without a number that is not finite, at any depth.\<close>

fun finite_numbers :: "json \<Rightarrow> bool" where
  "finite_numbers JNull = True"
| "finite_numbers (JBool b) = True"
| "finite_numbers (JNum (Num i)) = True"
| "finite_numbers (JNum Infinity) = False"
| "finite_numbers (JNum NegInfinity) = False"
| "finite_numbers (JStr s) = True"
| "finite_numbers (JArr xs) = list_all finite_numbers xs"
| "finite_numbers (JObj kvs) = list_all (\<lambda>(k, v). finite_numbers v) kvs"

definition finite_problem :: "MathProblem \<Rightarrow> bool" where
  "finite_problem p =
     (finite_numbers (question p) \<and> list_all finite_numbers (options p) \<and>
      finite_numbers (answerIndex p))"

text \<open>The problem that the text written for \<open>p\<close> denotes.\<close>

definition reparsed :: "MathProblem \<Rightarrow> MathProblem" where
  "reparsed p =
     p\<lparr>question := stored (question p), options := map stored (options p),
       answerIndex := stored (answerIndex p)\<rparr>"

fun status_name :: "AppStatus \<Rightarrow> string" where
  "status_name IDLE = ''IDLE''"
| "status_name LOADING = ''LOADING''"
| "status_name PLAYING = ''PLAYING''"
| "status_name FEEDBACK = ''FEEDBACK''"
| "status_name RETRY_SUMMARY = ''RETRY_SUMMARY''"
| "status_name FINISHED = ''FINISHED''"

definition problem_json :: "MathProblem \<Rightarrow> json" where
  "problem_json p =
     JObj [(''question'', stored (question p)), (''options'', JArr (map stored (options p))),
           (''answerIndex'', stored (answerIndex p)), (''id'', JStr (problem_id p))]"

definition snapshot :: "GameState \<Rightarrow> json" where
  "snapshot g =
     JObj [(''problems'', JArr (map problem_json (problems g))),
           (''currentIndex'', JNum (Num (currentIndex g))),
           (''wrongProblemIds'', JArr (map JStr (wrongProblemIds g))),
           (''status'', JStr (status_name (status g))),
           (''isCorrect'', (case isCorrect g of None \<Rightarrow> JNull | Some b \<Rightarrow> JBool b))]"

text \<open>The own enumerable properties that \<open>{...parsed}\<close> copies.\<close>

fun indexed :: "nat \<Rightarrow> json list \<Rightarrow> (string \<times> json) list" where
  "indexed i [] = []"
| "indexed i (x # xs) = (show_nat i, x) # indexed (Suc i) xs"

fun own_props :: "json \<Rightarrow> (string \<times> json) list" where
  "own_props (JObj kvs) = kvs"
| "own_props (JArr xs) = indexed 0 xs"
| "own_props (JStr s) = indexed 0 (map (\<lambda>c. JStr [c]) s)"
| "own_props JNull = []"
| "own_props (JBool b) = []"
| "own_props (JNum n) = []"

definition restored_object :: "json \<Rightarrow> (string \<times> json) list" where
  "restored_object parsed = AList.update ''status'' (JStr ''IDLE'') (own_props parsed)"

text \<open>
  \<open>useState<GameState>\<close> takes that object as a \<open>GameState\<close> without a check. The functions
  below read an object at the types of \<open>types.ts\<close>, and give \<open>None\<close> when it has another shape.
\<close>

fun as_string :: "json \<Rightarrow> string option" where
  "as_string (JStr s) = Some s"
| "as_string v = None"

fun as_status :: "json \<Rightarrow> AppStatus option" where
  "as_status (JStr s) =
     (if s = ''IDLE'' then Some IDLE
      else if s = ''LOADING'' then Some LOADING
      else if s = ''PLAYING'' then Some PLAYING
      else if s = ''FEEDBACK'' then Some FEEDBACK
      else if s = ''RETRY_SUMMARY'' then Some RETRY_SUMMARY
      else if s = ''FINISHED'' then Some FINISHED
      else None)"
| "as_status v = None"

fun as_problem :: "json \<Rightarrow> MathProblem option" where
  "as_problem (JObj kvs) =
     (case (map_of kvs ''id'', map_of kvs ''question'', map_of kvs ''options'', map_of kvs ''answerIndex'') of
        (Some (JStr i), Some q, Some (JArr os), Some a) \<Rightarrow>
          Some \<lparr>problem_id = i, question = q, options = os, answerIndex = a\<rparr>
      | _ \<Rightarrow> None)"
| "as_problem v = None"

fun as_isCorrect :: "json \<Rightarrow> bool option option" where
  "as_isCorrect JNull = Some None"
| "as_isCorrect (JBool b) = Some (Some b)"
| "as_isCorrect v = None"

definition as_GameState :: "(string \<times> json) list \<Rightarrow> GameState option" where
  "as_GameState kvs =
     (case (map_of kvs ''problems'', map_of kvs ''currentIndex'', map_of kvs ''wrongProblemIds'',
            map_of kvs ''status'', map_of kvs ''isCorrect'') of
        (Some (JArr ps), Some (JNum (Num i)), Some (JArr ws), Some s, Some c) \<Rightarrow>
          (case (those (map as_problem ps), those (map as_string ws), as_status s, as_isCorrect c) of
             (Some ps', Some ws', Some s', Some c') \<Rightarrow>
               Some \<lparr>problems = ps', currentIndex = i, wrongProblemIds = ws', status = s', isCorrect = c'\<rparr>
           | _ \<Rightarrow> None)
      | _ \<Rightarrow> None)"

text \<open>The initialiser of \<open>useState\<close>: \<open>saved\<close> is the stored tree, \<open>None\<close> when the slot is empty.\<close>

definition initial_game :: "json option \<Rightarrow> GameState option" where
  "initial_game saved =
     (case saved of
        Some parsed \<Rightarrow> as_GameState (restored_object parsed)
      | None \<Rightarrow> Some empty_game)"

subsection \<open>The rendered controls and the events\<close>

text \<open>
  The component renders nothing before the key check ends, and the key screen instead of
  every other control while a key has to be selected.
\<close>

definition controls_shown :: "World \<Rightarrow> bool" where
  "controls_shown w = (hasCheckedKey w \<and> \<not> needsKeySelection w)"

text \<open>
  Option button \<open>idx\<close> exists when the status is PLAYING or FEEDBACK and the current problem
  has an option at \<open>idx\<close>; it carries \<open>disabled\<close> while the status is FEEDBACK.
\<close>

definition option_rendered :: "World \<Rightarrow> nat \<Rightarrow> bool" where
  "option_rendered w idx =
     (controls_shown w \<and> (status (game w) = PLAYING \<or> status (game w) = FEEDBACK) \<and>
      (case at_index (problems (game w)) (currentIndex (game w)) of
         None \<Rightarrow> False
       | Some p \<Rightarrow> idx < length (options p)))"

definition option_disabled :: "World \<Rightarrow> bool" where
  "option_disabled w = (status (game w) = FEEDBACK)"

text \<open>A click on an option button; a handler that throws leaves every state as it was.\<close>

definition click_option :: "World \<Rightarrow> nat \<Rightarrow> World" where
  "click_option w idx =
     (if option_rendered w idx \<and> \<not> option_disabled w
      then (case handleAnswer w (int idx) of Inl e \<Rightarrow> w | Inr w' \<Rightarrow> w')
      else w)"

definition retry_rendered :: "World \<Rightarrow> bool" where
  "retry_rendered w =
     (controls_shown w \<and> status (game w) = RETRY_SUMMARY \<and> length (wrongProblemIds (game w)) \<noteq> 0)"

definition file_input_rendered :: "World \<Rightarrow> bool" where
  "file_input_rendered w = (controls_shown w \<and> status (game w) = IDLE)"

text \<open>The page is loaded in window \<open>wn\<close> with \<open>saved\<close> in the slot.\<close>

definition boot :: "window \<Rightarrow> json option \<Rightarrow> World option" where
  "boot wn saved =
     (case initial_game saved of
        None \<Rightarrow> None
      | Some g \<Rightarrow>
          Some \<lparr>game = g, hasCheckedKey = False, needsKeySelection = False,
                loadingMsg = PreparingQuest, alerts = [], win = wn,
                sound = \<lparr>ctx = None\<rparr>, timers = 0, uploads = 0, canvas_clears = 0\<rparr>)"

datatype event =
    KeyChecked bool
  | SelectKey
  | ChooseFile bool
  | GenerationSettles "nat \<Rightarrow> nat" gen_outcome
  | ClickOption nat
  | TimerFires
  | ClickRetry
  | ClickReset
  | Reload

definition step :: "World \<Rightarrow> event \<Rightarrow> World" where
  "step w ev =
     (case ev of
        KeyChecked hasKey \<Rightarrow> w\<lparr>needsKeySelection := \<not> hasKey, hasCheckedKey := True\<rparr>
      | SelectKey \<Rightarrow>
          (if hasCheckedKey w \<and> needsKeySelection w then w\<lparr>needsKeySelection := False\<rparr> else w)
      | ChooseFile file \<Rightarrow>
          (if file_input_rendered w \<and> file then upload_begins w else w)
      | GenerationSettles clock out \<Rightarrow>
          (if uploads w = 0 then w else upload_settles clock out w)
      | ClickOption idx \<Rightarrow> click_option w idx
      | TimerFires \<Rightarrow> timer_fires w
      | ClickRetry \<Rightarrow> (if retry_rendered w then startRetryRound w else w)
      | ClickReset \<Rightarrow> (if controls_shown w then resetGame w else w)
      | Reload \<Rightarrow>
          (case boot (win w) (Some (snapshot (game w))) of
             None \<Rightarrow> w
           | Some w' \<Rightarrow> w'))"

definition run :: "World \<Rightarrow> event list \<Rightarrow> World" where
  "run w evs = foldl step w evs"

text \<open>The bound on the cursor.\<close>

definition index_bound :: "GameState \<Rightarrow> bool" where
  "index_bound g = (0 \<le> currentIndex g \<and> currentIndex g \<le> int (length (problems g)))"

section \<open>Concrete inputs\<close>

text \<open>A browser with the standard constructor, and a window with neither constructor.\<close>

definition browser :: window where
  "browser = \<lparr>has_AudioContext = True, has_webkitAudioContext = False, new_ctx_state = suspended\<rparr>"

definition silent_window :: window where
  "silent_window = \<lparr>has_AudioContext = False, has_webkitAudioContext = False, new_ctx_state = suspended\<rparr>"

definition fresh_service :: SoundService where
  "fresh_service = \<lparr>ctx = None\<rparr>"

text \<open>The set-up of Scenario A: one problem \<open>a\<close> with answer 1, status PLAYING, cursor 0.\<close>

definition problem_a :: MathProblem where
  "problem_a = \<lparr>problem_id = ''a'', question = JStr ''1+1?'',
                 options = [JStr ''1'', JStr ''2'', JStr ''3''], answerIndex = JNum (Num 1)\<rparr>"

definition playing_a :: World where
  "playing_a =
     \<lparr>game = \<lparr>problems = [problem_a], currentIndex = 0, wrongProblemIds = [],
              status = PLAYING, isCorrect = None\<rparr>,
      hasCheckedKey = True, needsKeySelection = False, loadingMsg = ReadingProblems,
      alerts = [], win = browser, sound = fresh_service, timers = 0, uploads = 0,
      canvas_clears = 0\<rparr>"

text \<open>Scenario B after the wrong answer 0, before the timer fires.\<close>

definition feedback_a :: World where
  "feedback_a =
     playing_a\<lparr>game := \<lparr>problems = [problem_a], currentIndex = 0, wrongProblemIds = [''a''],
                         status = FEEDBACK, isCorrect = Some False\<rparr>,
               sound := \<lparr>ctx = Some \<lparr>state = running, started = [FailureCue]\<rparr>\<rparr>,
               timers := 1\<rparr>"

text \<open>The summary after a round of \<open>a\<close> answered correctly: nothing recorded wrong.\<close>

definition summary_a :: World where
  "summary_a =
     playing_a\<lparr>game := \<lparr>problems = [problem_a], currentIndex = 1, wrongProblemIds = [],
                         status = RETRY_SUMMARY, isCorrect = None\<rparr>\<rparr>"

text \<open>The payload of Scenario F, and a payload item without any of the three properties.\<close>

definition item_F :: json where
  "item_F = JObj [(''question'', JStr ''2+2?''), (''options'', JArr [JStr ''3'', JStr ''4'']),
                  (''answerIndex'', JNum (Num 5))]"

definition problem_F :: MathProblem where
  "problem_F = \<lparr>problem_id = ''prob-1000-0'', question = JStr ''2+2?'',
                 options = [JStr ''3'', JStr ''4''], answerIndex = JNum (Num 5)\<rparr>"

definition item_bare :: json where
  "item_bare = JObj []"

definition fixed_clock :: "nat \<Rightarrow> nat" where
  "fixed_clock i = 1000"

text \<open>A page freshly loaded in the browser with an empty slot.\<close>

definition loaded :: World where
  "loaded =
     \<lparr>game = empty_game, hasCheckedKey = False, needsKeySelection = False,
      loadingMsg = PreparingQuest, alerts = [], win = browser, sound = fresh_service,
      timers = 0, uploads = 0, canvas_clears = 0\<rparr>"

text \<open>
  One problem is generated and answered; the reset button is pressed before the 1.2 s of
  the answer's timer are over; the timer fires.
\<close>

definition reset_race :: "event list" where
  "reset_race =
     [KeyChecked True, ChooseFile True, GenerationSettles fixed_clock (Payload (JArr [item_F])),
      ClickOption 0, ClickReset, TimerFires]"

text \<open>A rejection of the generation call whose message names the missing key.\<close>

definition key_rejection :: gen_outcome where
  "key_rejection = Rejected (Thrown (Some ''404 Requested entity was not found.''))"

text \<open>Scenario A's set-up in the window without an audio constructor.\<close>

definition playing_silent :: World where
  "playing_silent = playing_a\<lparr>win := silent_window\<rparr>"

text \<open>
  What \<open>JSON.parse\<close> returns for a payload item whose \<open>answerIndex\<close> is written \<open>1e400\<close>, the
  problem built from it, the game that starts with it, and the problem as it comes back from
  the slot.
\<close>

definition item_overflow :: json where
  "item_overflow =
     JObj [(''question'', JStr ''2+2?''), (''options'', JArr [JStr ''3'', JStr ''4'', JStr ''5'']),
           (''answerIndex'', JNum Infinity)]"

definition problem_overflow :: MathProblem where
  "problem_overflow = \<lparr>problem_id = ''prob-1000-0'', question = JStr ''2+2?'',
                        options = [JStr ''3'', JStr ''4'', JStr ''5''], answerIndex = JNum Infinity\<rparr>"

definition overflow_game :: GameState where
  "overflow_game = \<lparr>problems = [problem_overflow], currentIndex = 0, wrongProblemIds = [],
                     status = PLAYING, isCorrect = None\<rparr>"

definition problem_overflow_restored :: MathProblem where
  "problem_overflow_restored = \<lparr>problem_id = ''prob-1000-0'', question = JStr ''2+2?'',
                                 options = [JStr ''3'', JStr ''4'', JStr ''5''], answerIndex = JNull\<rparr>"

text \<open>The end state of Scenario B: the round of \<open>a\<close> is over and \<open>a\<close> was answered wrongly.\<close>

definition summary_b :: World where
  "summary_b =
     playing_a\<lparr>game := \<lparr>problems = [problem_a], currentIndex = 1, wrongProblemIds = [''a''],
                         status = RETRY_SUMMARY, isCorrect = None\<rparr>\<rparr>"

section \<open>Auxiliary facts\<close>

lemma show_nat_0: "show_nat 0 = ''0''"
  by code_simp

lemma show_nat_1: "show_nat (Suc 0) = ''1''"
  by code_simp

lemma show_nat_1000: "show_nat 1000 = ''1000''"
  by code_simp

lemma play_returns:
  assumes "ctx s \<noteq> None \<or> has_AudioContext wn \<or> has_webkitAudioContext wn"
  shows "\<exists>s'. play q wn s = Inr s'"
  using assms by (auto simp: play_def init_def split: option.splits)

lemma generate_F: "generate fixed_clock (Payload (JArr [item_F])) = Inr [problem_F]"
  by (simp add: generate_def coerce_def item_F_def problem_F_def fixed_clock_def
      show_nat_0 show_nat_1000)

text \<open>What \<open>coerce\<close> does to one item that is not \<open>null\<close>.\<close>

lemma coerce_item:
  assumes "p \<noteq> JNull"
  shows "\<exists>q. coerce now i p = Inr q \<and>
           truthy (question q) \<and>
           (get_prop p ''question'' = Inr None \<longrightarrow> question q = JStr default_question) \<and>
           (\<forall>v. get_prop p ''question'' = Inr (Some v) \<longrightarrow>
              question q = (if truthy v then v else JStr default_question)) \<and>
           (\<forall>xs. get_prop p ''options'' = Inr (Some (JArr xs)) \<longrightarrow> options q = xs) \<and>
           ((\<forall>xs. get_prop p ''options'' \<noteq> Inr (Some (JArr xs))) \<longrightarrow>
              options q = placeholder_options) \<and>
           (\<forall>n. get_prop p ''answerIndex'' = Inr (Some (JNum n)) \<longrightarrow> answerIndex q = JNum n) \<and>
           ((\<forall>n. get_prop p ''answerIndex'' \<noteq> Inr (Some (JNum n))) \<longrightarrow>
              answerIndex q = JNum (Num 0))"
  using assms
  by (cases p) (auto simp: coerce_def default_question_def split: option.splits json.splits)

lemma coerce_all_items:
  assumes "JNull \<notin> set ps"
  shows "\<exists>qs. coerce_all clock k ps = Inr qs \<and> length qs = length ps \<and>
           (\<forall>i<length ps. coerce (clock (k + i)) (k + i) (ps ! i) = Inr (qs ! i))"
  using assms
proof (induction ps arbitrary: k)
  case Nil
  then show ?case by simp
next
  case (Cons p ps)
  then have "p \<noteq> JNull" and rest: "JNull \<notin> set ps" by auto
  then obtain q where q: "coerce (clock k) k p = Inr q"
    using coerce_item by blast
  obtain qs where qs: "coerce_all clock (Suc k) ps = Inr qs" "length qs = length ps"
    "\<forall>i<length ps. coerce (clock (Suc k + i)) (Suc k + i) (ps ! i) = Inr (qs ! i)"
    using Cons.IH [OF rest] by blast
  have "\<forall>i<length (p # ps). coerce (clock (k + i)) (k + i) ((p # ps) ! i) = Inr ((q # qs) ! i)"
  proof (intro allI impI)
    fix i assume "i < length (p # ps)"
    then show "coerce (clock (k + i)) (k + i) ((p # ps) ! i) = Inr ((q # qs) ! i)"
      using q qs(3) by (cases i) auto
  qed
  then show ?case using q qs(1,2) by simp
qed

text \<open>Reading back what the snapshot holds.\<close>

lemma stored_finite: "finite_numbers j \<Longrightarrow> stored j = j"
proof (induction j rule: stored.induct)
  case (7 xs)
  then show ?case by (simp add: list_all_iff map_idI)
next
  case (8 kvs)
  then show ?case by (auto simp: list_all_iff intro!: map_idI)
qed simp_all

lemma reparsed_finite: "finite_problem p \<Longrightarrow> reparsed p = p"
  by (simp add: finite_problem_def reparsed_def stored_finite list_all_iff map_idI)

lemma as_problem_problem_json: "as_problem (problem_json p) = Some (reparsed p)"
  by (simp add: problem_json_def reparsed_def)

lemma those_problems: "those (map (as_problem \<circ> problem_json) ps) = Some (map reparsed ps)"
  by (induction ps) (simp_all add: as_problem_problem_json)

lemma those_ids: "those (map (as_string \<circ> JStr) ws) = Some ws"
  by (induction ws) simp_all

lemma as_status_status_name: "as_status (JStr (status_name s)) = Some s"
  by (cases s) simp_all

lemma as_isCorrect_roundtrip:
  "as_isCorrect (case c of None \<Rightarrow> JNull | Some b \<Rightarrow> JBool b) = Some c"
  by (cases c) simp_all

lemma restored_snapshot:
  "as_GameState (restored_object (snapshot g)) =
     Some (g\<lparr>problems := map reparsed (problems g), status := IDLE\<rparr>)"
  by (simp add: as_GameState_def restored_object_def snapshot_def
      those_problems those_ids as_isCorrect_roundtrip)

lemma boot_snapshot:
  "boot wn (Some (snapshot g)) =
     Some \<lparr>game = g\<lparr>problems := map reparsed (problems g), status := IDLE\<rparr>,
           hasCheckedKey = False, needsKeySelection = False,
           loadingMsg = PreparingQuest, alerts = [], win = wn,
           sound = \<lparr>ctx = None\<rparr>, timers = 0, uploads = 0, canvas_clears = 0\<rparr>"
  by (simp add: boot_def initial_game_def restored_snapshot)

lemma key_rejection_matches:
  "sublist key_not_found_phrase ''404 Requested entity was not found.''"
  unfolding key_not_found_phrase_def
  by (simp add: sublist_code prefix_code)

text \<open>
  Every event keeps the cursor within its bound, the timer too as long as the cursor it
  finds is still inside the round, as it is in the FEEDBACK state that scheduled it.
\<close>

lemma step_keeps_bound:
  assumes "index_bound (game w)"
    and "ev = TimerFires \<longrightarrow> currentIndex (game w) < int (length (problems (game w)))"
  shows "index_bound (game (step w ev))"
proof (cases ev)
  case (GenerationSettles clock out)
  then show ?thesis using assms(1)
    by (auto simp: step_def upload_settles_def index_bound_def Let_def split: sum.splits)
next
  case (ClickOption idx)
  then show ?thesis using assms(1)
    by (auto simp: step_def click_option_def handleAnswer_def index_bound_def Let_def
        split: sum.splits option.splits if_splits)
next
  case TimerFires
  then show ?thesis using assms
    by (auto simp: step_def timer_fires_def advance_def index_bound_def Let_def)
next
  case Reload
  then show ?thesis using assms(1)
    by (simp add: step_def boot_snapshot index_bound_def)
qed (use assms(1) in \<open>auto simp: step_def upload_begins_def startRetryRound_def resetGame_def
      empty_game_def index_bound_def\<close>)

lemma run_keeps_bound:
  assumes "index_bound (game w)" and "TimerFires \<notin> set evs"
  shows "index_bound (game (run w evs))"
  using assms unfolding run_def
proof (induction evs arbitrary: w)
  case Nil
  then show ?case by simp
next
  case (Cons ev evs)
  then have "index_bound (game (step w ev))"
    using step_keeps_bound [of w ev] by auto
  with Cons show ?case by simp
qed

text \<open>
  Where the sound service can get a context (it holds one, or the window has an audio
  constructor), the handler judges and records the answer: \<open>isCorrect\<close> is whether \<open>k\<close> is the
  current problem's \<open>answerIndex\<close>, the status is FEEDBACK, and the current problem's id is
  appended to \<open>wrongProblemIds\<close> exactly when the judgment is false.
\<close>

lemma handleAnswer_judgment_with_audio:
  assumes "0 \<le> currentIndex (game w)"
    and "currentIndex (game w) < int (length (problems (game w)))"
    and "ctx (sound w) \<noteq> None \<or> has_AudioContext (win w) \<or> has_webkitAudioContext (win w)"
  shows "\<exists>w'. handleAnswer w k = Inr w' \<and>
           isCorrect (game w') =
             Some (JNum (Num k) = answerIndex (problems (game w) ! nat (currentIndex (game w)))) \<and>
           status (game w') = FEEDBACK \<and>
           wrongProblemIds (game w') =
             (if JNum (Num k) = answerIndex (problems (game w) ! nat (currentIndex (game w)))
              then wrongProblemIds (game w)
              else wrongProblemIds (game w) @
                   [problem_id (problems (game w) ! nat (currentIndex (game w)))])"
proof -
  let ?p = "problems (game w) ! nat (currentIndex (game w))"
  have at: "at_index (problems (game w)) (currentIndex (game w)) = Some ?p"
    using assms(1,2) by (simp add: at_index_def)
  obtain s1 where s1: "play SuccessCue (win w) (sound w) = Inr s1"
    using play_returns [OF assms(3)] by blast
  obtain s2 where s2: "play FailureCue (win w) (sound w) = Inr s2"
    using play_returns [OF assms(3)] by blast
  show ?thesis
    by (simp add: handleAnswer_def at playSuccess_def playFailure_def s1 s2 Let_def)
qed

section \<open>The claims\<close>

text \<open>
  C1. In Scenario A's state (status PLAYING, cursor 0 on problem \<open>a\<close>) in a window without
  an audio constructor, \<open>handleAnswer\<close> throws at the cue, for the right answer 1 as for the
  wrong answer 0, before it judges into the state: a click on either option leaves
  everything as it was, with status PLAYING, \<open>isCorrect\<close> null and no wrong id recorded.
\<close>

theorem answer_lost_without_audio:
  "status (game playing_silent) = PLAYING \<and>
   at_index (problems (game playing_silent)) (currentIndex (game playing_silent)) = Some problem_a \<and>
   handleAnswer playing_silent 1 = Inl (Thrown (Some not_a_constructor_message)) \<and>
   handleAnswer playing_silent 0 = Inl (Thrown (Some not_a_constructor_message)) \<and>
   click_option playing_silent 1 = playing_silent \<and>
   click_option playing_silent 0 = playing_silent"
  by (simp add: playing_silent_def playing_a_def problem_a_def at_index_def handleAnswer_def
      click_option_def playSuccess_def playFailure_def play_def init_def silent_window_def
      fresh_service_def)

text \<open>
  C2. When a pending delayed transition fires, the cursor becomes \<open>currentIndex + 1\<close>, the
  status becomes RETRY_SUMMARY if that next index is at least the number of problems and
  PLAYING otherwise, \<open>isCorrect\<close> becomes null, and \<open>problems\<close> and \<open>wrongProblemIds\<close> stay
  as they were.
\<close>

theorem timer_transition:
  assumes "0 < timers w"
  shows "currentIndex (game (timer_fires w)) = currentIndex (game w) + 1 \<and>
         status (game (timer_fires w)) =
           (if currentIndex (game w) + 1 \<ge> int (length (problems (game w)))
            then RETRY_SUMMARY else PLAYING) \<and>
         isCorrect (game (timer_fires w)) = None \<and>
         problems (game (timer_fires w)) = problems (game w) \<and>
         wrongProblemIds (game (timer_fires w)) = wrongProblemIds (game w)"
  using assms by (simp add: timer_fires_def advance_def Let_def)

theorem timer_transition_witness:
  "0 < timers feedback_a \<and>
   currentIndex (game (timer_fires feedback_a)) = 1 \<and>
   status (game (timer_fires feedback_a)) = RETRY_SUMMARY \<and>
   isCorrect (game (timer_fires feedback_a)) = None \<and>
   problems (game (timer_fires feedback_a)) = [problem_a] \<and>
   wrongProblemIds (game (timer_fires feedback_a)) = [''a'']"
  using timer_transition [of feedback_a]
  by (simp add: feedback_a_def playing_a_def)

text \<open>
  C3, as stated, fails: when no problem was recorded wrong, \<open>startRetryRound\<close> changes the
  status only, and the state keeps the problems of the round instead of the empty
  subsequence.
\<close>

theorem retry_keeps_problems_counterexample:
  "problems (game (startRetryRound summary_a)) \<noteq> nextProblems (game summary_a)"
  by (simp add: startRetryRound_def nextProblems_def summary_a_def playing_a_def)

text \<open>
  C3, amended. \<open>nextProblems\<close> is the subsequence of the round's problems whose ids are in
  \<open>wrongProblemIds\<close>, in their order. If it is empty, \<open>startRetryRound\<close> only sets the status
  to FINISHED and leaves every other field, \<open>problems\<close> too; otherwise the state becomes
  PLAYING with \<open>problems = nextProblems\<close>, cursor 0, no wrong ids and \<open>isCorrect\<close> null. The
  result is never PLAYING with zero problems.
\<close>

theorem startRetryRound_narrows:
  "subseq (nextProblems (game w)) (problems (game w)) \<and>
   set (nextProblems (game w)) =
     {p. p \<in> set (problems (game w)) \<and> problem_id p \<in> set (wrongProblemIds (game w))} \<and>
   game (startRetryRound w) =
     (if nextProblems (game w) = []
      then (game w)\<lparr>status := FINISHED\<rparr>
      else \<lparr>problems = nextProblems (game w), currentIndex = 0, wrongProblemIds = [],
            status = PLAYING, isCorrect = None\<rparr>) \<and>
   \<not> (status (game (startRetryRound w)) = PLAYING \<and> problems (game (startRetryRound w)) = [])"
  by (auto simp: startRetryRound_def nextProblems_def)

theorem startRetryRound_narrows_witness:
  "game (startRetryRound summary_b) =
     \<lparr>problems = [problem_a], currentIndex = 0, wrongProblemIds = [],
      status = PLAYING, isCorrect = None\<rparr> \<and>
   game (startRetryRound summary_a) = (game summary_a)\<lparr>status := FINISHED\<rparr>"
  using startRetryRound_narrows [of summary_b] startRetryRound_narrows [of summary_a]
  by (simp add: nextProblems_def summary_a_def summary_b_def playing_a_def problem_a_def)

text \<open>
  C4. The bound \<open>0 \<le> currentIndex \<le> length problems\<close> is lost along a sequence of events:
  a problem is generated and answered, the reset button is pressed while the answer's
  timer is pending, and the timer then advances the cursor of the empty state to 1.
\<close>

theorem reset_race_breaks_bound:
  "game (run loaded reset_race) =
     \<lparr>problems = [], currentIndex = 1, wrongProblemIds = [], status = RETRY_SUMMARY,
      isCorrect = None\<rparr> \<and>
   \<not> index_bound (game (run loaded reset_race))"
  by (simp add: run_def reset_race_def loaded_def step_def file_input_rendered_def
      controls_shown_def empty_game_def upload_begins_def upload_settles_def generate_F
      click_option_def option_rendered_def option_disabled_def at_index_def problem_F_def
      handleAnswer_def playSuccess_def playFailure_def play_def init_def resume_def
      browser_def fresh_service_def resetGame_def timer_fires_def advance_def
      index_bound_def Let_def)

text \<open>
  C5, as stated, fails: \<open>handleAnswer\<close> has no check of the status. Called in the FEEDBACK
  state of Scenario B it records the id a second time, plays a second cue and schedules
  a second timer.
\<close>

theorem handleAnswer_unguarded_counterexample:
  "status (game feedback_a) \<noteq> PLAYING \<and>
   handleAnswer feedback_a 0 =
     Inr (feedback_a\<lparr>game := (game feedback_a)\<lparr>wrongProblemIds := [''a'', ''a'']\<rparr>,
                     sound := \<lparr>ctx = Some \<lparr>state = running, started = [FailureCue, FailureCue]\<rparr>\<rparr>,
                     timers := 2\<rparr>) \<and>
   wrongProblemIds (game feedback_a) = [''a'']"
  by (simp add: feedback_a_def playing_a_def problem_a_def handleAnswer_def at_index_def
      playFailure_def play_def init_def resume_def)

text \<open>
  C5, amended. The option buttons are the only callers of \<open>handleAnswer\<close>; they exist only
  in PLAYING and FEEDBACK and are disabled in FEEDBACK. So in every state whose status is
  not PLAYING a click on an option changes nothing: not the game state, and no cue, timer
  or other effect.
\<close>

theorem click_ignored_unless_playing:
  assumes "status (game w) \<noteq> PLAYING"
  shows "click_option w idx = w"
  using assms by (auto simp: click_option_def option_rendered_def option_disabled_def)

theorem click_ignored_unless_playing_witness:
  "status (game feedback_a) \<noteq> PLAYING \<and> click_option feedback_a 0 = feedback_a"
  using click_ignored_unless_playing [of feedback_a 0]
  by (simp add: feedback_a_def playing_a_def)

text \<open>
  C6, as stated, fails: the item of Scenario F keeps its two options and its answer index 5.
\<close>

theorem scenario_F_counterexample:
  "coerce 1000 0 item_F = Inr problem_F \<and> length (options problem_F) = 2 \<and>
   answerIndex problem_F = JNum (Num 5)"
  by (simp add: coerce_def item_F_def problem_F_def show_nat_0 show_nat_1000)

text \<open>
  C6, amended. For a payload that is an array without \<open>null\<close> items, generation succeeds
  with one problem per item: the question is the item's \<open>question\<close> when that is truthy
  and the default text when it is missing or falsy; \<open>options\<close> is the item's array as it
  is, of whatever length, and the three-element placeholder when the item's \<open>options\<close> is
  missing or not an array;
  \<open>answerIndex\<close> is the item's number as it is, in range or not, and 0 when it is missing
  or not a number. The round starts in PLAYING at cursor 0.
\<close>

theorem generation_coerces:
  assumes "JNull \<notin> set ps"
  shows "\<exists>qs. generate clock (Payload (JArr ps)) = Inr qs \<and> length qs = length ps \<and>
           (\<forall>i<length ps.
              truthy (question (qs ! i)) \<and>
              (get_prop (ps ! i) ''question'' = Inr None \<longrightarrow>
                 question (qs ! i) = JStr default_question) \<and>
              (\<forall>v. get_prop (ps ! i) ''question'' = Inr (Some v) \<longrightarrow>
                 question (qs ! i) = (if truthy v then v else JStr default_question)) \<and>
              (\<forall>xs. get_prop (ps ! i) ''options'' = Inr (Some (JArr xs)) \<longrightarrow>
                 options (qs ! i) = xs) \<and>
              ((\<forall>xs. get_prop (ps ! i) ''options'' \<noteq> Inr (Some (JArr xs))) \<longrightarrow>
                 options (qs ! i) = [JStr ''?'', JStr ''?'', JStr ''?'']) \<and>
              (\<forall>n. get_prop (ps ! i) ''answerIndex'' = Inr (Some (JNum n)) \<longrightarrow>
                 answerIndex (qs ! i) = JNum n) \<and>
              ((\<forall>n. get_prop (ps ! i) ''answerIndex'' \<noteq> Inr (Some (JNum n))) \<longrightarrow>
                 answerIndex (qs ! i) = JNum (Num 0))) \<and>
           game (handleFileUpload w True clock (Payload (JArr ps))) =
             \<lparr>problems = qs, currentIndex = 0, wrongProblemIds = [], status = PLAYING,
              isCorrect = None\<rparr>"
proof -
  obtain qs where qs: "coerce_all clock 0 ps = Inr qs" "length qs = length ps"
    and each: "\<forall>i<length ps. coerce (clock (0 + i)) (0 + i) (ps ! i) = Inr (qs ! i)"
    using coerce_all_items [OF assms] by blast
  have gen: "generate clock (Payload (JArr ps)) = Inr qs"
    using qs(1) by (simp add: generate_def)
  have items: "truthy (question (qs ! i)) \<and>
      (get_prop (ps ! i) ''question'' = Inr None \<longrightarrow> question (qs ! i) = JStr default_question) \<and>
      (\<forall>v. get_prop (ps ! i) ''question'' = Inr (Some v) \<longrightarrow>
         question (qs ! i) = (if truthy v then v else JStr default_question)) \<and>
      (\<forall>xs. get_prop (ps ! i) ''options'' = Inr (Some (JArr xs)) \<longrightarrow> options (qs ! i) = xs) \<and>
      ((\<forall>xs. get_prop (ps ! i) ''options'' \<noteq> Inr (Some (JArr xs))) \<longrightarrow>
         options (qs ! i) = [JStr ''?'', JStr ''?'', JStr ''?'']) \<and>
      (\<forall>n. get_prop (ps ! i) ''answerIndex'' = Inr (Some (JNum n)) \<longrightarrow>
         answerIndex (qs ! i) = JNum n) \<and>
      ((\<forall>n. get_prop (ps ! i) ''answerIndex'' \<noteq> Inr (Some (JNum n))) \<longrightarrow>
         answerIndex (qs ! i) = JNum (Num 0))"
    if "i < length ps" for i
  proof -
    have "ps ! i \<noteq> JNull" using assms that by (metis nth_mem)
    from coerce_item [OF this, of "clock i" i] each that
    show ?thesis by (auto simp: placeholder_options_def)
  qed
  have "game (handleFileUpload w True clock (Payload (JArr ps))) =
      \<lparr>problems = qs, currentIndex = 0, wrongProblemIds = [], status = PLAYING, isCorrect = None\<rparr>"
    by (simp add: handleFileUpload_def upload_settles_def gen)
  with gen qs(2) items show ?thesis by blast
qed

theorem generation_coerces_witness:
  "JNull \<notin> set [item_F, item_bare] \<and>
   generate fixed_clock (Payload (JArr [item_F, item_bare])) =
     Inr [problem_F,
          \<lparr>problem_id = ''prob-1000-1'', question = JStr default_question,
           options = [JStr ''?'', JStr ''?'', JStr ''?''], answerIndex = JNum (Num 0)\<rparr>] \<and>
   status (game (handleFileUpload loaded True fixed_clock (Payload (JArr [item_F, item_bare])))) =
     PLAYING"
proof -
  have h: "JNull \<notin> set [item_F, item_bare]"
    by (simp add: item_F_def item_bare_def)
  obtain qs where
    "game (handleFileUpload loaded True fixed_clock (Payload (JArr [item_F, item_bare]))) =
       \<lparr>problems = qs, currentIndex = 0, wrongProblemIds = [], status = PLAYING, isCorrect = None\<rparr>"
    using generation_coerces [OF h, of fixed_clock loaded] by blast
  then have "status (game (handleFileUpload loaded True fixed_clock
      (Payload (JArr [item_F, item_bare])))) = PLAYING"
    by simp
  moreover have "generate fixed_clock (Payload (JArr [item_F, item_bare])) =
     Inr [problem_F,
          \<lparr>problem_id = ''prob-1000-1'', question = JStr default_question,
           options = [JStr ''?'', JStr ''?'', JStr ''?''], answerIndex = JNum (Num 0)\<rparr>]"
    by (simp add: item_F_def item_bare_def generate_def coerce_def fixed_clock_def problem_F_def
        placeholder_options_def show_nat_0 show_nat_1 show_nat_1000)
  ultimately show ?thesis using h by blast
qed

text \<open>
  C7. When the generation fails, that is, the \<open>try\<close> block throws, the handler ends with
  status IDLE, whatever state it finds when the call settles; and when the message of the
  thrown error contains the key-not-found phrase, \<open>needsKeySelection\<close> is true afterwards.
\<close>

theorem failure_returns_to_idle:
  assumes "generate clock out = Inl e"
  shows "status (game (upload_settles clock out w)) = IDLE \<and>
         status (game (handleFileUpload w True clock out)) = IDLE \<and>
         (sublist key_not_found_phrase (case message e of Some m \<Rightarrow> m | None \<Rightarrow> []) \<longrightarrow>
            needsKeySelection (handleFileUpload w True clock out))"
  using assms by (simp add: handleFileUpload_def upload_settles_def Let_def)

theorem failure_returns_to_idle_witness:
  "generate fixed_clock key_rejection =
     Inl (Thrown (Some ''404 Requested entity was not found.'')) \<and>
   status (game (handleFileUpload loaded True fixed_clock key_rejection)) = IDLE \<and>
   needsKeySelection (handleFileUpload loaded True fixed_clock key_rejection)"
  using failure_returns_to_idle [of fixed_clock key_rejection
      "Thrown (Some ''404 Requested entity was not found.'')" loaded]
    key_rejection_matches
  by (simp add: key_rejection_def generate_def)

text \<open>
  C8, as stated, fails. A payload item whose \<open>answerIndex\<close> is written \<open>1e400\<close> gives a problem
  whose \<open>answerIndex\<close> is \<open>Infinity\<close>; the snapshot stores \<open>null\<close> for it, and the restored
  problem has \<open>answerIndex\<close> null, so the restored \<open>problems\<close> differ from the stored ones.
\<close>

theorem overflow_roundtrip_counterexample:
  "game (handleFileUpload loaded True fixed_clock (Payload (JArr [item_overflow]))) = overflow_game \<and>
   initial_game (Some (snapshot overflow_game)) =
     Some \<lparr>problems = [problem_overflow_restored], currentIndex = 0, wrongProblemIds = [],
           status = IDLE, isCorrect = None\<rparr> \<and>
   problems overflow_game = [problem_overflow] \<and>
   problem_overflow_restored \<noteq> problem_overflow"
  by (simp add: handleFileUpload_def upload_settles_def upload_begins_def generate_def coerce_def
      item_overflow_def fixed_clock_def show_nat_0 show_nat_1000 loaded_def overflow_game_def
      problem_overflow_def problem_overflow_restored_def initial_game_def restored_snapshot
      reparsed_def)

text \<open>
  C8, amended. For every game state whose problems hold finite numbers only (in
  \<open>answerIndex\<close>, and at any depth of \<open>question\<close> and \<open>options\<close>), storing the snapshot and
  loading the page again gives a state with the same \<open>problems\<close>, \<open>currentIndex\<close> and
  \<open>wrongProblemIds\<close>, and status IDLE.
\<close>

theorem snapshot_roundtrip:
  assumes "\<forall>p\<in>set (problems g). finite_problem p"
  shows "\<exists>g'. initial_game (Some (snapshot g)) = Some g' \<and>
           problems g' = problems g \<and> currentIndex g' = currentIndex g \<and>
           wrongProblemIds g' = wrongProblemIds g \<and> status g' = IDLE"
proof -
  have "map reparsed (problems g) = problems g"
    using assms by (simp add: reparsed_finite map_idI)
  then show ?thesis
    by (simp add: initial_game_def restored_snapshot)
qed

theorem snapshot_roundtrip_witness:
  "problems (game feedback_a) = [problem_a] \<and> finite_problem problem_a \<and>
   initial_game (Some (snapshot (game feedback_a))) =
     Some \<lparr>problems = [problem_a], currentIndex = 0, wrongProblemIds = [''a''],
           status = IDLE, isCorrect = Some False\<rparr>"
proof -
  have h: "\<forall>p\<in>set (problems (game feedback_a)). finite_problem p"
    by (simp add: feedback_a_def playing_a_def problem_a_def finite_problem_def)
  obtain g' where g': "initial_game (Some (snapshot (game feedback_a))) = Some g'"
    "problems g' = problems (game feedback_a)" "currentIndex g' = currentIndex (game feedback_a)"
    "wrongProblemIds g' = wrongProblemIds (game feedback_a)" "status g' = IDLE"
    using snapshot_roundtrip [OF h] by blast
  have "initial_game (Some (snapshot (game feedback_a))) =
      Some ((game feedback_a)\<lparr>problems := map reparsed (problems (game feedback_a)), status := IDLE\<rparr>)"
    by (simp add: initial_game_def restored_snapshot)
  with g' have "initial_game (Some (snapshot (game feedback_a))) =
      Some \<lparr>problems = [problem_a], currentIndex = 0, wrongProblemIds = [''a''],
            status = IDLE, isCorrect = Some False\<rparr>"
    by (simp add: feedback_a_def playing_a_def)
  moreover have "problems (game feedback_a) = [problem_a]" "finite_problem problem_a"
    by (simp_all add: feedback_a_def playing_a_def problem_a_def finite_problem_def)
  ultimately show ?thesis by blast
qed

text \<open>
  C9. In a window with neither audio constructor, both \<open>playSuccess\<close> and \<open>playFailure\<close>
  throw: \<open>init\<close> fails at \<open>new\<close>, before the check of \<open>this.ctx\<close> that would return silently.
\<close>

theorem play_throws_without_constructor:
  "playSuccess silent_window fresh_service = Inl (Thrown (Some not_a_constructor_message)) \<and>
   playFailure silent_window fresh_service = Inl (Thrown (Some not_a_constructor_message))"
  by (simp add: playSuccess_def playFailure_def play_def init_def silent_window_def
      fresh_service_def)

text \<open>
  C10. When the generation fails, \<open>handleFileUpload\<close> leaves \<open>problems\<close>, \<open>currentIndex\<close>,
  \<open>wrongProblemIds\<close> and \<open>isCorrect\<close> as they were before the upload: the update to LOADING
  and the update back to IDLE change the status only.
\<close>

theorem failed_upload_frame:
  assumes "generate clock out = Inl e"
  shows "problems (game (handleFileUpload w file clock out)) = problems (game w) \<and>
         currentIndex (game (handleFileUpload w file clock out)) = currentIndex (game w) \<and>
         wrongProblemIds (game (handleFileUpload w file clock out)) = wrongProblemIds (game w) \<and>
         isCorrect (game (handleFileUpload w file clock out)) = isCorrect (game w) \<and>
         game (upload_begins w) = (game w)\<lparr>status := LOADING\<rparr> \<and>
         game (upload_settles clock out (upload_begins w)) = (game w)\<lparr>status := IDLE\<rparr>"
  using assms by (simp add: handleFileUpload_def upload_settles_def upload_begins_def Let_def)

theorem failed_upload_frame_witness:
  "generate fixed_clock NoText = Inl (Thrown (Some ''Empty response'')) \<and>
   problems (game (handleFileUpload feedback_a True fixed_clock NoText)) = [problem_a] \<and>
   currentIndex (game (handleFileUpload feedback_a True fixed_clock NoText)) = 0 \<and>
   wrongProblemIds (game (handleFileUpload feedback_a True fixed_clock NoText)) = [''a''] \<and>
   isCorrect (game (handleFileUpload feedback_a True fixed_clock NoText)) = Some False"
  using failed_upload_frame [of fixed_clock NoText "Thrown (Some ''Empty response'')" feedback_a True]
  by (simp add: generate_def feedback_a_def playing_a_def)

end
